theory Spec2Isabelle
  imports Complex_Main "HOL-Library.AList"
begin

section \<open>Webhook configuration (models/WebhookConfig.js)\<close>

text \<open>
  The mongoose schema of a tenant's webhook configuration. Counters and millisecond
  values are natural numbers (the schema bounds them below by 0, 100 and 1); the
  back-off multiplier is any rational number. Strings are byte sequences (UTF-8).
\<close>

record events_config =
  cardExtracted :: bool
  userAdded :: bool
  configChanged :: bool

record retry_config =
  maxRetries :: nat
  retryDelay :: nat
  backoffMultiplier :: rat

record custom_header =
  header_name :: string
  header_value :: string

record webhook_stats =
  totalSent :: nat
  successCount :: nat
  failureCount :: nat
  averageResponseTime :: nat

record webhook_config =
  config_id :: nat
  organization :: string
  url :: string
  secret :: string
  isActive :: bool
  events :: events_config
  retryConfig :: retry_config
  headers :: "custom_header list"
  lastTriggered :: "nat option"
  stats :: webhook_stats

text \<open>
  \<^verbatim>\<open>webhookConfig.events[eventType]\<close>: the schema declares three event flags; any other
  property name reads \<^verbatim>\<open>undefined\<close>, which is falsy. (Names that every JavaScript object
  inherits, such as \<^verbatim>\<open>constructor\<close>, are not modelled; no caller passes one.)
\<close>

definition event_enabled :: "events_config \<Rightarrow> string \<Rightarrow> bool" where
  "event_enabled e t =
     (if t = ''cardExtracted'' then cardExtracted e
      else if t = ''userAdded'' then userAdded e
      else if t = ''configChanged'' then configChanged e
      else False)"

text \<open>The collection of stored configurations, in insertion order.\<close>

type_synonym store = "webhook_config list"

text \<open>\<^verbatim>\<open>WebhookConfig.findOne({ organization, isActive: true })\<close>\<close>

definition findOne_active :: "store \<Rightarrow> string \<Rightarrow> webhook_config option" where
  "findOne_active st org = List.find (\<lambda>c. organization c = org \<and> isActive c) st"

text \<open>\<^verbatim>\<open>WebhookConfig.findById(id)\<close>\<close>

definition findById :: "store \<Rightarrow> nat \<Rightarrow> webhook_config option" where
  "findById st i = List.find (\<lambda>c. config_id c = i) st"

text \<open>
  \<^verbatim>\<open>WebhookConfig.findByIdAndUpdate(id, update)\<close>: the first document with the id is
  updated; a missing id changes nothing.
\<close>

fun findByIdAndUpdate :: "store \<Rightarrow> nat \<Rightarrow> (webhook_config \<Rightarrow> webhook_config) \<Rightarrow> store" where
  "findByIdAndUpdate [] i f = []"
| "findByIdAndUpdate (c # cs) i f =
     (if config_id c = i then f c # cs else c # findByIdAndUpdate cs i f)"

section \<open>The event envelope and the signer (services/webhookService.js)\<close>

record payload =
  event :: string
  timestamp :: string
  organizationId :: string
  data :: string

text \<open>
  The primitives of the platform the service calls: \<^verbatim>\<open>JSON.stringify\<close> on an envelope and
  the hexadecimal HMAC-SHA256 digest of node's \<^verbatim>\<open>crypto\<close> module (key first, message
  second). They are parameters of the model.
\<close>

record platform =
  json_stringify :: "payload \<Rightarrow> string"
  hmac_sha256_hex :: "string \<Rightarrow> string \<Rightarrow> string"

datatype error = Error string | RangeError string

definition generateSignature :: "platform \<Rightarrow> payload \<Rightarrow> string \<Rightarrow> string" where
  "generateSignature P p s =
     (let payloadString = json_stringify P p
      in ''sha256='' @ hmac_sha256_hex P s payloadString)"

text \<open>
  \<^verbatim>\<open>crypto.timingSafeEqual(a, b)\<close> on two buffers: node throws a RangeError when the byte
  lengths differ, and compares the bytes otherwise. \<^verbatim>\<open>Buffer.from(string)\<close> is the
  string's UTF-8 bytes, which is what a \<^typ>\<open>string\<close> is here.
\<close>

definition timingSafeEqual :: "string \<Rightarrow> string \<Rightarrow> error + bool" where
  "timingSafeEqual a b =
     (if length a \<noteq> length b
      then Inl (RangeError ''Input buffers must have the same byte length'')
      else Inr (a = b))"

definition verifySignature :: "platform \<Rightarrow> payload \<Rightarrow> string \<Rightarrow> string \<Rightarrow> error + bool" where
  "verifySignature P p signature s =
     (let expectedSignature = generateSignature P p s
      in timingSafeEqual signature expectedSignature)"

section \<open>One delivery attempt\<close>

text \<open>\<^verbatim>\<open>Number.prototype.toString()\<close> on a natural number: its decimal digits.\<close>

definition digit_char :: "nat \<Rightarrow> char" where
  "digit_char d = ''0123456789'' ! d"

function toString :: "nat \<Rightarrow> string" where
  "toString n = (if n < 10 then [digit_char n] else toString (n div 10) @ [digit_char (n mod 10)])"
  by pat_completeness auto
termination
  by (relation "measure (\<lambda>n. n)") auto

declare toString.simps [simp del]

text \<open>
  What axios reports for one POST: a response with its status and status text, or no
  response at all, with the error's code and message.
\<close>

datatype axios_outcome = Responded nat string | NoResponse string string

text \<open>
  What the world contributes to one attempt: the outcome of the POST, the milliseconds
  that passed between the two readings of \<^verbatim>\<open>Date.now()\<close>, and the time at which the
  statistics are written.
\<close>

record attempt_env =
  http :: axios_outcome
  elapsed :: nat
  clock :: nat

record http_request =
  req_url :: string
  req_body :: payload
  req_headers :: "(string \<times> string) list"
  req_timeout :: nat

record delivery_result =
  success :: bool
  status :: nat
  responseTime :: nat
  result_attempt :: nat

text \<open>
  The headers object: the six defaults, then \<^verbatim>\<open>headers[header.name] = header.value\<close> for
  each custom header in order. Assigning a property that exists replaces its value.
\<close>

definition default_headers :: "platform \<Rightarrow> webhook_config \<Rightarrow> payload \<Rightarrow> nat \<Rightarrow> (string \<times> string) list" where
  "default_headers P c p attempt =
     [(''Content-Type'', ''application/json''),
      (''User-Agent'', ''BusinessCardExtractor/1.0''),
      (''X-Signature-256'', generateSignature P p (secret c)),
      (''X-Event-Type'', event p),
      (''X-Timestamp'', timestamp p),
      (''X-Attempt'', toString attempt)]"

definition add_custom_headers :: "custom_header list \<Rightarrow> (string \<times> string) list \<Rightarrow> (string \<times> string) list" where
  "add_custom_headers hs obj = fold (\<lambda>h acc. AList.update (header_name h) (header_value h) acc) hs obj"

definition build_request :: "platform \<Rightarrow> webhook_config \<Rightarrow> payload \<Rightarrow> nat \<Rightarrow> http_request" where
  "build_request P c p attempt =
     \<lparr>req_url = url c, req_body = p,
      req_headers = add_custom_headers (headers c) (default_headers P c p attempt),
      req_timeout = 30000\<rparr>"

text \<open>\<^verbatim>\<open>validateStatus: (status) => status >= 200 && status < 300\<close>\<close>

definition validateStatus :: "nat \<Rightarrow> bool" where
  "validateStatus s = (200 \<le> s \<and> s < 300)"

definition errorMessage :: "axios_outcome \<Rightarrow> string" where
  "errorMessage out =
     (case out of
        Responded s statusText \<Rightarrow> ''HTTP '' @ toString s @ '': '' @ statusText
      | NoResponse code msg \<Rightarrow>
          (if code = ''ECONNABORTED'' then ''Request timeout''
           else if code = ''ECONNREFUSED'' then ''Connection refused''
           else msg))"

text \<open>
  \<^verbatim>\<open>deliverWebhook(webhookConfig, payload, attempt)\<close>: the request it posts, and the
  result object it returns or the error it throws.
\<close>

definition deliverWebhook ::
    "platform \<Rightarrow> webhook_config \<Rightarrow> payload \<Rightarrow> nat \<Rightarrow> attempt_env \<Rightarrow> http_request \<times> (error + delivery_result)" where
  "deliverWebhook P c p attempt env =
     (build_request P c p attempt,
      (case http env of
         Responded s statusText \<Rightarrow>
           (if validateStatus s
            then Inr \<lparr>success = True, status = s, responseTime = elapsed env, result_attempt = attempt\<rparr>
            else Inl (Error (''Webhook delivery failed (attempt '' @ toString attempt @ ''): ''
                             @ errorMessage (http env))))
       | NoResponse code msg \<Rightarrow>
           Inl (Error (''Webhook delivery failed (attempt '' @ toString attempt @ ''): ''
                       @ errorMessage (http env)))))"

section \<open>Statistics\<close>

text \<open>\<^verbatim>\<open>Math.round(p / q)\<close> for natural numbers \<open>p\<close> and \<open>q > 0\<close>.\<close>

definition round_div :: "nat \<Rightarrow> nat \<Rightarrow> nat" where
  "round_div p q = (2 * p + q) div (2 * q)"

text \<open>
  \<^verbatim>\<open>updateWebhookStats(webhookConfigId, success, responseTime = 0)\<close>. Reading
  \<^verbatim>\<open>config.stats\<close> of a configuration that is gone throws inside the \<^verbatim>\<open>try\<close>; the
  \<^verbatim>\<open>catch\<close> logs it and nothing is written.
\<close>

definition updateWebhookStats :: "store \<Rightarrow> nat \<Rightarrow> bool \<Rightarrow> nat \<Rightarrow> nat \<Rightarrow> store" where
  "updateWebhookStats st i succ rt now =
     (if succ then
        (if rt > 0 then
           (case findById st i of
              None \<Rightarrow> st
            | Some config \<Rightarrow>
                (let currentAvg = averageResponseTime (stats config);
                     totalSuccess = successCount (stats config) + 1;
                     newAvg = round_div (currentAvg * (totalSuccess - 1) + rt) totalSuccess
                 in findByIdAndUpdate st i
                      (\<lambda>c. c\<lparr>lastTriggered := Some now,
                               stats := (stats c)\<lparr>totalSent := totalSent (stats c) + 1,
                                                    successCount := successCount (stats c) + 1,
                                                    averageResponseTime := newAvg\<rparr>\<rparr>)))
         else findByIdAndUpdate st i
                (\<lambda>c. c\<lparr>lastTriggered := Some now,
                         stats := (stats c)\<lparr>totalSent := totalSent (stats c) + 1,
                                              successCount := successCount (stats c) + 1\<rparr>\<rparr>))
      else findByIdAndUpdate st i
             (\<lambda>c. c\<lparr>lastTriggered := Some now,
                      stats := (stats c)\<lparr>totalSent := totalSent (stats c) + 1,
                                           failureCount := failureCount (stats c) + 1\<rparr>\<rparr>))"

section \<open>The delivery queue and its worker\<close>

text \<open>
  The queue is BullMQ, a library the service calls; what follows of it is its documented
  behaviour. A job holds the data and the options it was added with and the number of
  attempts made. The queue never changes a job's data; it counts the attempts in
  \<open>attemptsMade\<close>.
\<close>

record delivery_data =
  webhookConfigId :: nat
  payload :: payload
  attempt :: nat

datatype backoff_type = Fixed | Exponential

record backoff_options =
  backoff_kind :: backoff_type
  delay :: nat

record job_options =
  attempts :: nat
  backoff :: backoff_options

record queue_job =
  job_data :: delivery_data
  opts :: job_options
  attemptsMade :: nat

text \<open>
  The worker's processor, run once per attempt: the store it leaves, the requests it
  posted, and the value it returns or the error it throws.
\<close>

definition process_job ::
    "platform \<Rightarrow> store \<Rightarrow> delivery_data \<Rightarrow> attempt_env \<Rightarrow> store \<times> http_request list \<times> (error + delivery_result)" where
  "process_job P st d env =
     (case findById st (webhookConfigId d) of
        None \<Rightarrow>
          (updateWebhookStats st (webhookConfigId d) False 0 (clock env), [],
           Inl (Error ''Webhook configuration not found or inactive''))
      | Some webhookConfig \<Rightarrow>
          (if \<not> isActive webhookConfig then
             (updateWebhookStats st (webhookConfigId d) False 0 (clock env), [],
              Inl (Error ''Webhook configuration not found or inactive''))
           else
             (case deliverWebhook P webhookConfig (payload d) (attempt d) env of
                (req, Inr result) \<Rightarrow>
                  (updateWebhookStats st (webhookConfigId d) True (responseTime result) (clock env),
                   [req], Inr result)
              | (req, Inl e) \<Rightarrow>
                  (updateWebhookStats st (webhookConfigId d) False 0 (clock env), [req], Inl e))))"

text \<open>
  BullMQ's built-in back-off strategies, applied to the number of attempts made so far:
  \<^verbatim>\<open>fixed\<close> is the delay, \<^verbatim>\<open>exponential\<close> is \<^verbatim>\<open>2 ^ (attemptsMade - 1) * delay\<close>.
\<close>

definition backoff_delay :: "backoff_options \<Rightarrow> nat \<Rightarrow> nat" where
  "backoff_delay b made =
     (case backoff_kind b of
        Fixed \<Rightarrow> delay b
      | Exponential \<Rightarrow> 2 ^ (made - 1) * delay b)"

text \<open>
  What one attempt leaves behind: the requests posted, the processor's outcome, and the
  delay after which the queue runs the job again (\<open>None\<close> when the job has reached a
  final state: completed after a return, failed after the last allowed attempt threw).
\<close>

record attempt_record =
  posted :: "http_request list"
  outcome :: "error + delivery_result"
  retry_in :: "nat option"

text \<open>
  One attempt as the queue runs it: a job whose processor returns is completed; a job
  whose processor throws is delayed and tried again while fewer than \<open>attempts\<close>
  attempts have been made, and is failed otherwise.
\<close>

definition worker_step ::
    "platform \<Rightarrow> attempt_env \<Rightarrow> store \<Rightarrow> queue_job \<Rightarrow> store \<times> attempt_record \<times> queue_job option" where
  "worker_step P env st j =
     (case process_job P st (job_data j) env of
        (st', reqs, Inr result) \<Rightarrow>
          (st', \<lparr>posted = reqs, outcome = Inr result, retry_in = None\<rparr>, None)
      | (st', reqs, Inl e) \<Rightarrow>
          (if attemptsMade j + 1 < attempts (opts j)
           then (st',
                 \<lparr>posted = reqs, outcome = Inl e,
                  retry_in = Some (backoff_delay (backoff (opts j)) (attemptsMade j + 1))\<rparr>,
                 Some (j\<lparr>attemptsMade := attemptsMade j + 1\<rparr>))
           else (st', \<lparr>posted = reqs, outcome = Inl e, retry_in = None\<rparr>, None)))"

text \<open>
  The whole life of a job in the queue. \<open>envs k\<close> is what the world contributes to the
  attempt made after \<open>k\<close> earlier ones.
\<close>

function run_job ::
    "platform \<Rightarrow> (nat \<Rightarrow> attempt_env) \<Rightarrow> store \<Rightarrow> queue_job \<Rightarrow> attempt_record list \<times> store" where
  "run_job P envs st j =
     (case worker_step P (envs (attemptsMade j)) st j of
        (st', r, None) \<Rightarrow> ([r], st')
      | (st', r, Some j') \<Rightarrow>
          (case run_job P envs st' j' of (rs, st'') \<Rightarrow> (r # rs, st'')))"
  by pat_completeness auto
termination
  by (relation "measure (\<lambda>(P, envs, st, j). attempts (opts j) - attemptsMade j)")
     (auto simp: worker_step_def split: prod.splits sum.splits if_splits)

declare run_job.simps [simp del]

text \<open>
  The same life while other requests write to the store: \<open>edits k\<close> is what they have
  written (a PUT /webhook of the tenant, say) when the attempt after \<open>k\<close> earlier ones
  starts. The worker reads the configuration again in every attempt.
\<close>

function run_job_with_edits ::
    "platform \<Rightarrow> (nat \<Rightarrow> attempt_env) \<Rightarrow> (nat \<Rightarrow> store \<Rightarrow> store) \<Rightarrow> store \<Rightarrow> queue_job
       \<Rightarrow> attempt_record list \<times> store" where
  "run_job_with_edits P envs edits st j =
     (case worker_step P (envs (attemptsMade j)) st j of
        (st', r, None) \<Rightarrow> ([r], st')
      | (st', r, Some j') \<Rightarrow>
          (case run_job_with_edits P envs edits (edits (attemptsMade j') st') j' of
             (rs, st'') \<Rightarrow> (r # rs, st'')))"
  by pat_completeness auto
termination
  by (relation "measure (\<lambda>(P, envs, edits, st, j). attempts (opts j) - attemptsMade j)")
     (auto simp: worker_step_def split: prod.splits sum.splits if_splits)

declare run_job_with_edits.simps [simp del]

section \<open>The dispatcher\<close>

datatype send_result = Null | Queued | SentDirectly delivery_result

record webhook_service =
  redisEnabled :: bool
  webhookQueue :: "queue_job list"

text \<open>The job \<^verbatim>\<open>webhookQueue.add\<close> is called with.\<close>

definition new_job :: "webhook_config \<Rightarrow> payload \<Rightarrow> queue_job" where
  "new_job webhookConfig p =
     \<lparr>job_data = \<lparr>webhookConfigId = config_id webhookConfig, payload = p, attempt = 1\<rparr>,
      opts = \<lparr>attempts = maxRetries (retryConfig webhookConfig) + 1,
              backoff = \<lparr>backoff_kind = Exponential, delay = retryDelay (retryConfig webhookConfig)\<rparr>\<rparr>,
      attemptsMade = 0\<rparr>"

record send_outcome =
  returned :: "error + send_result"
  service_after :: webhook_service
  requests :: "http_request list"

text \<open>
  \<^verbatim>\<open>sendWebhook(organizationId, eventType, data)\<close>; \<open>now\<close> is
  \<^verbatim>\<open>new Date().toISOString()\<close>, and \<open>env\<close> is read only when the webhook is sent directly.
  The \<^verbatim>\<open>catch\<close> wraps whatever was thrown in a new error and throws that.
\<close>

definition sendWebhook ::
    "platform \<Rightarrow> webhook_service \<Rightarrow> store \<Rightarrow> string \<Rightarrow> string \<Rightarrow> string \<Rightarrow> string \<Rightarrow> attempt_env \<Rightarrow> send_outcome" where
  "sendWebhook P svc st orgId eventType d now env =
     (case findOne_active st orgId of
        None \<Rightarrow> \<lparr>returned = Inr Null, service_after = svc, requests = []\<rparr>
      | Some webhookConfig \<Rightarrow>
          (if \<not> event_enabled (events webhookConfig) eventType
           then \<lparr>returned = Inr Null, service_after = svc, requests = []\<rparr>
           else
             (let p = \<lparr>event = eventType, timestamp = now, organizationId = orgId, data = d\<rparr>
              in if redisEnabled svc
                 then \<lparr>returned = Inr Queued,
                       service_after = svc\<lparr>webhookQueue := webhookQueue svc @ [new_job webhookConfig p]\<rparr>,
                       requests = []\<rparr>
                 else
                   (case deliverWebhook P webhookConfig p 1 env of
                      (req, Inr result) \<Rightarrow>
                        \<lparr>returned = Inr (SentDirectly result), service_after = svc, requests = [req]\<rparr>
                    | (req, Inl (Error msg)) \<Rightarrow>
                        \<lparr>returned = Inl (Error (''Webhook delivery failed: '' @ msg)),
                         service_after = svc, requests = [req]\<rparr>
                    | (req, Inl (RangeError msg)) \<Rightarrow>
                        \<lparr>returned = Inl (Error (''Webhook delivery failed: '' @ msg)),
                         service_after = svc, requests = [req]\<rparr>))))"

section \<open>Retrying failed jobs by hand\<close>




section \<open>Reading a job's history\<close>



definition failed_attempt :: "attempt_record \<Rightarrow> bool" where
  "failed_attempt r = isl (outcome r)"

definition all_posted :: "attempt_record list \<Rightarrow> http_request list" where
  "all_posted rs = concat (map posted rs)"

definition header_of :: "http_request \<Rightarrow> string \<Rightarrow> string option" where
  "header_of q n = map_of (req_headers q) n"

text \<open>Whether axios resolves the POST (a response with a status the request accepts).\<close>

definition resolves :: "axios_outcome \<Rightarrow> bool" where
  "resolves out = (case out of Responded s statusText \<Rightarrow> validateStatus s | NoResponse code msg \<Rightarrow> False)"

text \<open>
  Two versions of a configuration that differ at most in what the statistics update
  writes (\<open>stats\<close> and \<open>lastTriggered\<close>).
\<close>

definition same_settings :: "webhook_config \<Rightarrow> webhook_config \<Rightarrow> bool" where
  "same_settings c c' = (c'\<lparr>lastTriggered := lastTriggered c, stats := stats c\<rparr> = c)"

text \<open>What of a configuration goes into the headers of a request.\<close>

definition signing_settings :: "webhook_config \<Rightarrow> string \<times> custom_header list" where
  "signing_settings c = (secret c, headers c)"

text \<open>The value of the tenant's last custom header of a name, if there is one.\<close>

definition custom_header_value :: "webhook_config \<Rightarrow> string \<Rightarrow> string option" where
  "custom_header_value c n = map_of (rev (map (\<lambda>h. (header_name h, header_value h)) (headers c))) n"

text \<open>
  The delay the specification gives for the retry after failed attempt \<open>k\<close>:
  \<open>initialDelayMs * backoffMultiplier ^ (k - 1)\<close>.
\<close>

definition spec_delay :: "retry_config \<Rightarrow> nat \<Rightarrow> rat" where
  "spec_delay rc k = of_nat (retryDelay rc) * backoffMultiplier rc ^ (k - 1)"

section \<open>Saving a configuration (routes/config.js, PUT /webhook)\<close>




















section \<open>Example data\<close>

text \<open>
  A platform to run examples on: the envelope is serialised field by field, and the
  digest is a stand-in of 64 hexadecimal characters.
\<close>

definition quoted :: "string \<Rightarrow> string" where
  "quoted s = CHR 0x22 # s @ [CHR 0x22]"

definition example_platform :: platform where
  "example_platform =
     \<lparr>json_stringify = (\<lambda>p. ''{'' @ quoted ''event'' @ '':'' @ quoted (event p) @ '',''
                              @ quoted ''timestamp'' @ '':'' @ quoted (timestamp p) @ '',''
                              @ quoted ''organizationId'' @ '':'' @ quoted (organizationId p) @ '',''
                              @ quoted ''data'' @ '':'' @ data p @ ''}''),
      hmac_sha256_hex = (\<lambda>k m. replicate 64 CHR ''0'')\<rparr>"

text \<open>
  The configuration of the specification's scenarios A and B: two retries, 100 ms,
  multiplier 2, only \<open>cardExtracted\<close> enabled.
\<close>

definition scenario_config :: webhook_config where
  "scenario_config =
     \<lparr>config_id = 7, organization = ''org1'', url = ''https://x.test/hook'',
      secret = ''ssssssssssssssss'', isActive = True,
      events = \<lparr>cardExtracted = True, userAdded = False, configChanged = False\<rparr>,
      retryConfig = \<lparr>maxRetries = 2, retryDelay = 100, backoffMultiplier = 2\<rparr>,
      headers = [], lastTriggered = None,
      stats = \<lparr>totalSent = 0, successCount = 0, failureCount = 0, averageResponseTime = 0\<rparr>\<rparr>"

definition scenario_payload :: payload where
  "scenario_payload =
     \<lparr>event = ''cardExtracted'', timestamp = ''2024-01-01T00:00:00.000Z'',
      organizationId = ''org1'', data = ''{}''\<rparr>"

text \<open>Scenario A: the endpoint answers 500 twice, then 200. Scenario B: always 500.\<close>

definition scenario_A :: "nat \<Rightarrow> attempt_env" where
  "scenario_A k =
     \<lparr>http = (if k < 2 then Responded 500 ''Internal Server Error'' else Responded 200 ''OK''),
      elapsed = 12, clock = 1000 + k\<rparr>"

definition scenario_B :: "nat \<Rightarrow> attempt_env" where
  "scenario_B k = \<lparr>http = Responded 500 ''Internal Server Error'', elapsed = 12, clock = 1000 + k\<rparr>"

text \<open>
  A second platform whose stand-in digest depends on the key: the key, filled up with
  zeros to 64 characters.
\<close>

definition keyed_platform :: platform where
  "keyed_platform =
     \<lparr>json_stringify = json_stringify example_platform,
      hmac_sha256_hex = (\<lambda>k m. take 64 (k @ replicate 64 CHR ''0''))\<rparr>"

text \<open>
  The tenant saves a new secret while the job waits for its second attempt: what that
  PUT /webhook writes to the stored secret.
\<close>

definition new_secret_saved :: "nat \<Rightarrow> store \<Rightarrow> store" where
  "new_secret_saved k st =
     (if k = 1 then findByIdAndUpdate st 7 (\<lambda>c. c\<lparr>secret := ''tttttttttttttttt''\<rparr>) else st)"




section \<open>The store and one attempt\<close>

lemma findById_Some_id: "findById st i = Some c \<Longrightarrow> config_id c = i"
  by (auto simp: findById_def find_Some_iff)

lemma findByIdAndUpdate_miss: "findById st i = None \<Longrightarrow> findByIdAndUpdate st i f = st"
  by (induction st) (auto simp: findById_def split: if_splits)

lemma findById_update:
  "findById st i = Some c \<Longrightarrow> config_id (f c) = i \<Longrightarrow> findById (findByIdAndUpdate st i f) i = Some (f c)"
  by (induction st) (auto simp: findById_def split: if_splits)

lemma same_settings_refl: "same_settings c c"
  by (simp add: same_settings_def)

lemma same_settings_trans: "same_settings a b \<Longrightarrow> same_settings b c \<Longrightarrow> same_settings a c"
  by (cases a, cases b, cases c) (simp add: same_settings_def)

lemma same_settings_fields:
  "same_settings c c' \<Longrightarrow>
     config_id c' = config_id c \<and> url c' = url c \<and> secret c' = secret c
     \<and> headers c' = headers c \<and> isActive c' = isActive c \<and> retryConfig c' = retryConfig c
     \<and> events c' = events c \<and> organization c' = organization c"
  by (cases c, cases c') (simp add: same_settings_def)

lemma build_request_same_settings:
  "same_settings c c' \<Longrightarrow> build_request P c' p a = build_request P c p a"
  using same_settings_fields [of c c']
  by (simp add: build_request_def default_headers_def)

lemma updateWebhookStats_miss:
  "findById st i = None \<Longrightarrow> updateWebhookStats st i succ rt now = st"
  by (simp add: updateWebhookStats_def findByIdAndUpdate_miss)

lemma updateWebhookStats_hit:
  assumes "findById st i = Some c"
  shows "\<exists>c'. findById (updateWebhookStats st i succ rt now) i = Some c'
           \<and> same_settings c c'
           \<and> totalSent (stats c') = totalSent (stats c) + 1
           \<and> failureCount (stats c') = failureCount (stats c) + (if succ then 0 else 1)
           \<and> successCount (stats c') = successCount (stats c) + (if succ then 1 else 0)"
proof -
  have i: "config_id c = i"
    using assms by (rule findById_Some_id)
  show ?thesis
    using assms i
    by (cases c) (simp add: updateWebhookStats_def findById_update same_settings_def Let_def)
qed

lemma deliverWebhook_request: "fst (deliverWebhook P c p a env) = build_request P c p a"
  by (simp add: deliverWebhook_def)

lemma deliverWebhook_outcome: "isl (snd (deliverWebhook P c p a env)) = (\<not> resolves (http env))"
  by (simp add: deliverWebhook_def resolves_def split: axios_outcome.splits)

lemma process_job_miss:
  "findById st (webhookConfigId d) = None \<Longrightarrow>
   process_job P st d env = (st, [], Inl (Error ''Webhook configuration not found or inactive''))"
  by (simp add: process_job_def updateWebhookStats_miss)

lemma process_job_hit:
  assumes "findById st (webhookConfigId d) = Some c"
    and "process_job P st d env = (st', reqs, out)"
  shows "\<exists>c'. findById st' (webhookConfigId d) = Some c'
           \<and> same_settings c c'
           \<and> totalSent (stats c') = totalSent (stats c) + 1
           \<and> failureCount (stats c') = failureCount (stats c) + (if isl out then 1 else 0)
           \<and> successCount (stats c') = successCount (stats c) + (if isl out then 0 else 1)"
    and "set reqs \<subseteq> {build_request P c (payload d) (attempt d)}"
proof -
  have "\<exists>rt. st' = updateWebhookStats st (webhookConfigId d) (\<not> isl out) rt (clock env)"
    using assms
    by (auto simp: process_job_def deliverWebhook_def split: if_splits axios_outcome.splits)
  then obtain rt where st': "st' = updateWebhookStats st (webhookConfigId d) (\<not> isl out) rt (clock env)"
    by blast
  show "\<exists>c'. findById st' (webhookConfigId d) = Some c'
           \<and> same_settings c c'
           \<and> totalSent (stats c') = totalSent (stats c) + 1
           \<and> failureCount (stats c') = failureCount (stats c) + (if isl out then 1 else 0)
           \<and> successCount (stats c') = successCount (stats c) + (if isl out then 0 else 1)"
    using updateWebhookStats_hit [OF assms(1), of "\<not> isl out" rt "clock env"] st' by auto
  show "set reqs \<subseteq> {build_request P c (payload d) (attempt d)}"
    using assms
    by (auto simp: process_job_def deliverWebhook_def split: if_splits axios_outcome.splits)
qed

section \<open>The life of a job\<close>

lemma worker_step_process:
  "worker_step P env st j = (st', r, jo) \<Longrightarrow> process_job P st (job_data j) env = (st', posted r, outcome r)"
  by (auto simp: worker_step_def split: prod.splits sum.splits if_splits)

lemma worker_step_final:
  "worker_step P env st j = (st', r, None) \<Longrightarrow>
     retry_in r = None \<and> (failed_attempt r \<longrightarrow> \<not> attemptsMade j + 1 < attempts (opts j))"
  by (auto simp: worker_step_def failed_attempt_def split: prod.splits sum.splits if_splits)

lemma worker_step_retry:
  "worker_step P env st j = (st', r, Some j') \<Longrightarrow>
     j' = j\<lparr>attemptsMade := attemptsMade j + 1\<rparr> \<and> attemptsMade j + 1 < attempts (opts j)
     \<and> retry_in r = Some (backoff_delay (backoff (opts j)) (attemptsMade j + 1)) \<and> failed_attempt r"
  by (auto simp: worker_step_def failed_attempt_def split: prod.splits sum.splits if_splits)

lemma run_job_final:
  "worker_step P (envs (attemptsMade j)) st j = (st', r, None) \<Longrightarrow> run_job P envs st j = ([r], st')"
  by (subst run_job.simps) simp

lemma run_job_retry:
  "worker_step P (envs (attemptsMade j)) st j = (st', r, Some j') \<Longrightarrow>
     run_job P envs st j = (r # fst (run_job P envs st' j'), snd (run_job P envs st' j'))"
  by (subst run_job.simps) (simp split: prod.splits)


lemma run_job_nonempty: "fst (run_job P envs st j) \<noteq> []"
proof -
  obtain st' r jo where ws: "worker_step P (envs (attemptsMade j)) st j = (st', r, jo)"
    by (metis prod_cases3)
  then show ?thesis
    by (cases jo) (simp_all add: run_job_final run_job_retry)
qed

text \<open>A retry is scheduled after attempt k+1 only while attempts remain, with the queue's delay.\<close>

lemma run_job_retry_in:
  "k < length (fst (run_job P envs st j)) \<Longrightarrow>
   retry_in (fst (run_job P envs st j) ! k) =
     (if Suc k < length (fst (run_job P envs st j))
      then Some (backoff_delay (backoff (opts j)) (attemptsMade j + k + 1)) else None)
   \<and> (Suc k < length (fst (run_job P envs st j)) \<longrightarrow>
        failed_attempt (fst (run_job P envs st j) ! k) \<and> attemptsMade j + k + 1 < attempts (opts j))
   \<and> (Suc k = length (fst (run_job P envs st j)) \<and> failed_attempt (fst (run_job P envs st j) ! k) \<longrightarrow>
        \<not> attemptsMade j + k + 1 < attempts (opts j))"
proof (induction P envs st j arbitrary: k rule: run_job.induct)
  case (1 P envs st j)
  obtain st' r jo where ws: "worker_step P (envs (attemptsMade j)) st j = (st', r, jo)"
    by (metis prod_cases3)
  show ?case
  proof (cases jo)
    case None
    with ws "1.prems" worker_step_final [of P "envs (attemptsMade j)" st j st' r]
    show ?thesis by (simp add: run_job_final)
  next
    case (Some j')
    note IH = "1.IH" [OF ws [symmetric] refl Some]
    have j': "opts j' = opts j" "attemptsMade j' = attemptsMade j + 1" "attemptsMade j + 1 < attempts (opts j)"
      "retry_in r = Some (backoff_delay (backoff (opts j)) (attemptsMade j + 1))" "failed_attempt r"
      using worker_step_retry [OF ws [unfolded Some]] by simp_all
    define rs' where "rs' = fst (run_job P envs st' j')"
    have run: "fst (run_job P envs st j) = r # rs'"
      using ws Some by (simp add: run_job_retry rs'_def)
    have ne: "rs' \<noteq> []"
      unfolding rs'_def by (rule run_job_nonempty)
    show ?thesis
    proof (cases k)
      case 0
      with j' run ne show ?thesis by (cases rs') simp_all
    next
      case (Suc m)
      with "1.prems" run have m: "m < length rs'" by simp
      have "retry_in (rs' ! m) =
              (if Suc m < length rs' then Some (backoff_delay (backoff (opts j)) (attemptsMade j + 1 + m + 1)) else None)
            \<and> (Suc m < length rs' \<longrightarrow> failed_attempt (rs' ! m) \<and> attemptsMade j + 1 + m + 1 < attempts (opts j))
            \<and> (Suc m = length rs' \<and> failed_attempt (rs' ! m) \<longrightarrow> \<not> attemptsMade j + 1 + m + 1 < attempts (opts j))"
        using IH [of m] m unfolding rs'_def [symmetric] j'(1) j'(2) by blast
      then show ?thesis
        unfolding run Suc by (auto simp: less_Suc_eq)
    qed
  qed
qed

lemma run_job_present:
  "findById st (webhookConfigId (job_data j)) = Some c \<Longrightarrow>
   (\<exists>c'. findById (snd (run_job P envs st j)) (webhookConfigId (job_data j)) = Some c'
      \<and> same_settings c c'
      \<and> totalSent (stats c') = totalSent (stats c) + length (fst (run_job P envs st j))
      \<and> failureCount (stats c') = failureCount (stats c) + length (filter failed_attempt (fst (run_job P envs st j)))
      \<and> successCount (stats c') = successCount (stats c)
           + length (filter (\<lambda>r. \<not> failed_attempt r) (fst (run_job P envs st j))))
   \<and> set (all_posted (fst (run_job P envs st j)))
        \<subseteq> {build_request P c (payload (job_data j)) (attempt (job_data j))}"
proof (induction P envs st j arbitrary: c rule: run_job.induct)
  case (1 P envs st j)
  obtain st' r jo where ws: "worker_step P (envs (attemptsMade j)) st j = (st', r, jo)"
    by (metis prod_cases3)
  let ?i = "webhookConfigId (job_data j)"
  let ?q = "build_request P c (payload (job_data j)) (attempt (job_data j))"
  have pj: "process_job P st (job_data j) (envs (attemptsMade j)) = (st', posted r, outcome r)"
    using ws by (rule worker_step_process)
  obtain c1 where c1: "findById st' ?i = Some c1" "same_settings c c1"
      "totalSent (stats c1) = totalSent (stats c) + 1"
      "failureCount (stats c1) = failureCount (stats c) + (if failed_attempt r then 1 else 0)"
      "successCount (stats c1) = successCount (stats c) + (if failed_attempt r then 0 else 1)"
    using process_job_hit(1) [OF "1.prems" pj] unfolding failed_attempt_def by blast
  have req: "set (posted r) \<subseteq> {?q}"
    using process_job_hit(2) [OF "1.prems" pj] .
  show ?case
  proof (cases jo)
    case None
    then have run: "run_job P envs st j = ([r], st')"
      using ws by (simp add: run_job_final)
    show ?thesis
      unfolding run using c1 req by (auto simp: all_posted_def)
  next
    case (Some j')
    have j': "job_data j' = job_data j"
      using worker_step_retry [OF ws [unfolded Some]] by simp
    define rs' where "rs' = fst (run_job P envs st' j')"
    define st'' where "st'' = snd (run_job P envs st' j')"
    have run: "run_job P envs st j = (r # rs', st'')"
      using ws Some by (simp add: run_job_retry rs'_def st''_def)
    have c1': "findById st' (webhookConfigId (job_data j')) = Some c1"
      using c1(1) j' by simp
    have IH: "(\<exists>c'. findById st'' ?i = Some c' \<and> same_settings c1 c'
                 \<and> totalSent (stats c') = totalSent (stats c1) + length rs'
                 \<and> failureCount (stats c') = failureCount (stats c1) + length (filter failed_attempt rs')
                 \<and> successCount (stats c') = successCount (stats c1) + length (filter (\<lambda>r. \<not> failed_attempt r) rs'))
              \<and> set (all_posted rs') \<subseteq> {build_request P c1 (payload (job_data j)) (attempt (job_data j))}"
      using "1.IH" [OF ws [symmetric] refl Some c1'] unfolding rs'_def st''_def j' .
    then obtain c2 where c2: "findById st'' ?i = Some c2" "same_settings c1 c2"
        "totalSent (stats c2) = totalSent (stats c1) + length rs'"
        "failureCount (stats c2) = failureCount (stats c1) + length (filter failed_attempt rs')"
        "successCount (stats c2) = successCount (stats c1) + length (filter (\<lambda>r. \<not> failed_attempt r) rs')"
      by blast
    have posted': "set (all_posted rs') \<subseteq> {?q}"
      using IH build_request_same_settings [OF c1(2)] by simp
    have "same_settings c c2"
      using c1(2) c2(2) by (rule same_settings_trans)
    then show ?thesis
      unfolding run using c1 c2 req posted' by (auto simp: all_posted_def)
  qed
qed

lemma run_job_absent:
  "findById st (webhookConfigId (job_data j)) = None \<Longrightarrow>
   snd (run_job P envs st j) = st \<and> all_posted (fst (run_job P envs st j)) = []"
proof (induction P envs st j rule: run_job.induct)
  case (1 P envs st j)
  obtain st' r jo where ws: "worker_step P (envs (attemptsMade j)) st j = (st', r, jo)"
    by (metis prod_cases3)
  have "process_job P st (job_data j) (envs (attemptsMade j)) = (st', posted r, outcome r)"
    using ws by (rule worker_step_process)
  then have r: "st' = st" "posted r = []"
    using process_job_miss [OF "1.prems"] by simp_all
  show ?case
  proof (cases jo)
    case None
    with ws r show ?thesis by (simp add: run_job_final all_posted_def)
  next
    case (Some j')
    have j': "job_data j' = job_data j"
      using worker_step_retry [OF ws [unfolded Some]] by simp
    have "findById st' (webhookConfigId (job_data j')) = None"
      using "1.prems" r j' by simp
    from "1.IH" [OF ws [symmetric] refl Some this] ws Some r
    show ?thesis by (simp add: run_job_retry all_posted_def)
  qed
qed

lemma count_all_but_last:
  "rs \<noteq> [] \<Longrightarrow> (\<And>k. Suc k < length rs \<Longrightarrow> Q (rs ! k)) \<Longrightarrow>
     length (filter Q rs) = (if Q (last rs) then length rs else length rs - 1)"
proof (induction rs)
  case Nil
  then show ?case by simp
next
  case (Cons r rs)
  show ?case
  proof (cases rs)
    case Nil
    then show ?thesis by simp
  next
    case (Cons r' rs')
    have "Q r" using Cons.prems(2) [of 0] Cons by simp
    moreover have "length (filter Q rs) = (if Q (last rs) then length rs else length rs - 1)"
    proof (rule Cons.IH)
      show "rs \<noteq> []" using Cons by simp
      fix k assume "Suc k < length rs"
      then show "Q (rs ! k)" using Cons.prems(2) [of "Suc k"] by simp
    qed
    ultimately show ?thesis using Cons by simp
  qed
qed

lemma run_job_failed_count:
  "length (filter failed_attempt (fst (run_job P envs st j)))
     = (if failed_attempt (last (fst (run_job P envs st j)))
        then length (fst (run_job P envs st j)) else length (fst (run_job P envs st j)) - 1)"
proof (rule count_all_but_last)
  show "fst (run_job P envs st j) \<noteq> []" by (rule run_job_nonempty)
  fix k assume k: "Suc k < length (fst (run_job P envs st j))"
  then have "k < length (fst (run_job P envs st j))" by simp
  from run_job_retry_in [OF this] k
  show "failed_attempt (fst (run_job P envs st j) ! k)" by simp
qed

lemma run_job_success_count:
  "length (filter (\<lambda>r. \<not> failed_attempt r) (fst (run_job P envs st j)))
     = (if failed_attempt (last (fst (run_job P envs st j))) then 0 else 1)"
proof -
  have "length (filter failed_attempt (fst (run_job P envs st j)))
          + length (filter (\<lambda>r. \<not> failed_attempt r) (fst (run_job P envs st j)))
        = length (fst (run_job P envs st j))"
    by (rule sum_length_filter_compl)
  moreover have "fst (run_job P envs st j) \<noteq> []" by (rule run_job_nonempty)
  ultimately show ?thesis
    using run_job_failed_count [of P envs st j]
    by (cases "fst (run_job P envs st j)") (auto split: if_splits)
qed

lemma run_job_last_final: "retry_in (last (fst (run_job P envs st j))) = None"
proof -
  have ne: "fst (run_job P envs st j) \<noteq> []" by (rule run_job_nonempty)
  then have "length (fst (run_job P envs st j)) - 1 < length (fst (run_job P envs st j))"
    by (cases "fst (run_job P envs st j)") simp_all
  from run_job_retry_in [OF this] ne
  show ?thesis by (simp add: last_conv_nth)
qed

section \<open>The scenarios, run\<close>

lemmas scenario_defs =
  worker_step_def process_job_def new_job_def findById_def scenario_config_def scenario_payload_def
  deliverWebhook_def validateStatus_def updateWebhookStats_def backoff_delay_def
  round_div_def Let_def

lemma toString_1: "toString (Suc 0) = ''1''"
  by (simp add: toString.simps digit_char_def)

lemma toString_500: "toString 500 = ''500''"
  by (simp add: toString.simps digit_char_def)

lemma scenario_A_run:
  "map (\<lambda>r. (failed_attempt r, retry_in r))
       (fst (run_job example_platform scenario_A [scenario_config] (new_job scenario_config scenario_payload)))
     = [(True, Some 100), (True, Some 200), (False, None)]
   \<and> map stats (snd (run_job example_platform scenario_A [scenario_config] (new_job scenario_config scenario_payload)))
     = [\<lparr>totalSent = 3, successCount = 1, failureCount = 2, averageResponseTime = 12\<rparr>]
   \<and> map (\<lambda>q. header_of q ''X-Attempt'')
       (all_posted (fst (run_job example_platform scenario_A [scenario_config] (new_job scenario_config scenario_payload))))
     = [Some ''1'', Some ''1'', Some ''1'']"
  apply (subst run_job.simps, simp add: scenario_defs scenario_A_def)+
  apply (simp add: failed_attempt_def all_posted_def header_of_def build_request_def default_headers_def
      add_custom_headers_def toString_1)
  done


lemma scenario_A_length:
  "length (fst (run_job example_platform scenario_A [scenario_config] (new_job scenario_config scenario_payload))) = 3"
proof -
  have "length (map (\<lambda>r. (failed_attempt r, retry_in r))
       (fst (run_job example_platform scenario_A [scenario_config] (new_job scenario_config scenario_payload)))) = 3"
    using scenario_A_run by simp
  then show ?thesis by simp
qed

lemma scenario_A_last:
  "\<not> failed_attempt (last (fst (run_job example_platform scenario_A [scenario_config] (new_job scenario_config scenario_payload))))"
proof -
  let ?rs = "fst (run_job example_platform scenario_A [scenario_config] (new_job scenario_config scenario_payload))"
  have "?rs \<noteq> []" by (rule run_job_nonempty)
  then have "last (map (\<lambda>r. (failed_attempt r, retry_in r)) ?rs) = (failed_attempt (last ?rs), retry_in (last ?rs))"
    by (simp add: last_map)
  then show ?thesis using scenario_A_run by simp
qed

lemma scenario_A_posted:
  "length (all_posted (fst (run_job example_platform scenario_A [scenario_config] (new_job scenario_config scenario_payload)))) = 3"
proof -
  have "length (map (\<lambda>q. header_of q ''X-Attempt'')
       (all_posted (fst (run_job example_platform scenario_A [scenario_config] (new_job scenario_config scenario_payload))))) = 3"
    using scenario_A_run by simp
  then show ?thesis by simp
qed

section \<open>The headers of a request\<close>

lemma add_custom_headers_lookup:
  "map_of (add_custom_headers hs obj) n =
     (case map_of (rev (map (\<lambda>h. (header_name h, header_value h)) hs)) n of
        Some v \<Rightarrow> Some v
      | None \<Rightarrow> map_of obj n)"
  unfolding add_custom_headers_def
proof (induction hs arbitrary: obj)
  case Nil
  then show ?case by simp
next
  case (Cons h hs)
  show ?case
    by (simp add: Cons.IH update_conv' map_add_def split: option.splits)
qed

text \<open>A header of the request: the last custom header of that name, or else the default.\<close>

lemma request_header:
  "header_of (build_request P c p a) n =
     (case map_of (rev (map (\<lambda>h. (header_name h, header_value h)) (headers c))) n of
        Some v \<Rightarrow> Some v
      | None \<Rightarrow> map_of (default_headers P c p a) n)"
  by (simp add: header_of_def build_request_def add_custom_headers_lookup)

lemma request_default_headers:
  assumes "\<forall>h\<in>set (headers c). header_name h \<noteq> n"
  shows "header_of (build_request P c p a) n = map_of (default_headers P c p a) n"
proof -
  have "n \<notin> fst ` set (rev (map (\<lambda>h. (header_name h, header_value h)) (headers c)))"
    using assms by auto
  then have "map_of (rev (map (\<lambda>h. (header_name h, header_value h)) (headers c))) n = None"
    by (simp add: map_of_eq_None_iff)
  then show ?thesis by (simp add: request_header)
qed

lemma request_custom_header:
  "header_of (build_request P (c\<lparr>headers := hs @ [h]\<rparr>) p a) (header_name h) = Some (header_value h)"
  by (simp add: request_header)

section \<open>What the dispatcher hands to the queue\<close>

text \<open>
  With the queue, an enabled event of an active configuration becomes one new job, built
  from the configuration found and the envelope made at that moment; nothing is posted.
\<close>

lemma sendWebhook_queues:
  assumes "redisEnabled svc" and "findOne_active st org = Some c" and "event_enabled (events c) eventType"
  shows "sendWebhook P svc st org eventType d now env =
           \<lparr>returned = Inr Queued,
            service_after = svc\<lparr>webhookQueue := webhookQueue svc
              @ [new_job c \<lparr>event = eventType, timestamp = now, organizationId = org, data = d\<rparr>]\<rparr>,
            requests = []\<rparr>"
  using assms by (simp add: sendWebhook_def)

text \<open>Without the queue, at most one request is posted, and the store is not written.\<close>

lemma sendWebhook_posts_once: "length (requests (sendWebhook P svc st org eventType d now env)) \<le> 1"
  by (simp add: sendWebhook_def Let_def split: option.splits prod.splits sum.splits error.splits)

section \<open>The delays of a dispatched job\<close>

text \<open>The job options do not depend on the configured multiplier.\<close>

lemma new_job_ignores_multiplier:
  "new_job (c\<lparr>retryConfig := (retryConfig c)\<lparr>backoffMultiplier := m\<rparr>\<rparr>) p = new_job c p"
  by (simp add: new_job_def)

text \<open>After the failed attempt \<open>k + 1\<close> that is not the last, the queue waits \<open>2 ^ k * retryDelay\<close>.\<close>

lemma new_job_retry_delay:
  assumes "Suc k < length (fst (run_job P envs st (new_job c p)))"
  shows "retry_in (fst (run_job P envs st (new_job c p)) ! k) = Some (2 ^ k * retryDelay (retryConfig c))"
proof -
  have "k < length (fst (run_job P envs st (new_job c p)))"
    using assms by simp
  from run_job_retry_in [OF this] assms show ?thesis
    by (simp add: new_job_def backoff_delay_def)
qed

section \<open>A job put back after it failed\<close>








section \<open>A job while the configuration is edited\<close>

lemma run_job_with_edits_final:
  "worker_step P (envs (attemptsMade j)) st j = (st', r, None) \<Longrightarrow>
     run_job_with_edits P envs edits st j = ([r], st')"
  by (subst run_job_with_edits.simps) simp

lemma run_job_with_edits_retry:
  "worker_step P (envs (attemptsMade j)) st j = (st', r, Some j') \<Longrightarrow>
     run_job_with_edits P envs edits st j
       = (r # fst (run_job_with_edits P envs edits (edits (attemptsMade j') st') j'),
          snd (run_job_with_edits P envs edits (edits (attemptsMade j') st') j'))"
  by (subst run_job_with_edits.simps) (simp split: prod.splits)

text \<open>With nothing else writing to the store, this is the life of the job on its own.\<close>

lemma run_job_with_no_edits: "run_job_with_edits P envs (\<lambda>k st. st) st j = run_job P envs st j"
proof (induction P envs st j rule: run_job.induct)
  case (1 P envs st j)
  obtain st' r jo where ws: "worker_step P (envs (attemptsMade j)) st j = (st', r, jo)"
    by (metis prod_cases3)
  show ?case
  proof (cases jo)
    case None
    with ws show ?thesis by (simp add: run_job_final run_job_with_edits_final)
  next
    case (Some j')
    from "1.IH" [OF ws [symmetric] refl Some] ws Some
    show ?thesis by (simp add: run_job_retry run_job_with_edits_retry)
  qed
qed

lemma same_settings_signing: "same_settings c c' \<Longrightarrow> signing_settings c' = signing_settings c"
  using same_settings_fields [of c c'] by (simp add: signing_settings_def)

lemma build_request_signing:
  "signing_settings c' = signing_settings c \<Longrightarrow>
     req_body (build_request P c' p a) = p
     \<and> req_headers (build_request P c' p a) = req_headers (build_request P c p a)"
  by (simp add: signing_settings_def build_request_def default_headers_def)

lemma run_job_with_edits_posted:
  assumes "\<forall>k st'. map_option signing_settings (findById (edits k st') (webhookConfigId (job_data j)))
                     = map_option signing_settings (findById st' (webhookConfigId (job_data j)))"
    and "findById st (webhookConfigId (job_data j)) = Some c"
  shows "\<forall>q\<in>set (all_posted (fst (run_job_with_edits P envs edits st j))).
           req_body q = payload (job_data j)
           \<and> req_headers q = req_headers (build_request P c (payload (job_data j)) (attempt (job_data j)))"
  using assms
proof (induction P envs edits st j arbitrary: c rule: run_job_with_edits.induct)
  case (1 P envs edits st j)
  obtain st' r jo where ws: "worker_step P (envs (attemptsMade j)) st j = (st', r, jo)"
    by (metis prod_cases3)
  let ?i = "webhookConfigId (job_data j)"
  let ?q = "build_request P c (payload (job_data j)) (attempt (job_data j))"
  have pj: "process_job P st (job_data j) (envs (attemptsMade j)) = (st', posted r, outcome r)"
    using ws by (rule worker_step_process)
  obtain c1 where c1: "findById st' ?i = Some c1" "same_settings c c1"
    using process_job_hit(1) [OF "1.prems"(2) pj] by blast
  have req: "set (posted r) \<subseteq> {?q}"
    using process_job_hit(2) [OF "1.prems"(2) pj] .
  have q: "req_body ?q = payload (job_data j)"
    by (simp add: build_request_def)
  show ?case
  proof (cases jo)
    case None
    then have run: "run_job_with_edits P envs edits st j = ([r], st')"
      using ws by (simp add: run_job_with_edits_final)
    show ?thesis
      unfolding run using req q by (auto simp: all_posted_def)
  next
    case (Some j')
    have j': "job_data j' = job_data j"
      using worker_step_retry [OF ws [unfolded Some]] by simp
    define st2 where "st2 = edits (attemptsMade j') st'"
    define rs' where "rs' = fst (run_job_with_edits P envs edits st2 j')"
    have run: "fst (run_job_with_edits P envs edits st j) = r # rs'"
      using ws Some by (simp add: run_job_with_edits_retry rs'_def st2_def)
    have "map_option signing_settings (findById st2 ?i) = Some (signing_settings c1)"
      using "1.prems"(1) c1(1) unfolding st2_def by simp
    then obtain c2 where c2: "findById st2 ?i = Some c2" "signing_settings c2 = signing_settings c1"
      by auto
    have s2: "signing_settings c2 = signing_settings c"
      using c2(2) same_settings_signing [OF c1(2)] by simp
    have e: "\<forall>k st'. map_option signing_settings (findById (edits k st') (webhookConfigId (job_data j')))
                     = map_option signing_settings (findById st' (webhookConfigId (job_data j')))"
      using "1.prems"(1) unfolding j' .
    have c2': "findById (edits (attemptsMade j') st') (webhookConfigId (job_data j')) = Some c2"
      using c2(1) unfolding st2_def j' .
    have IH: "\<forall>q\<in>set (all_posted rs').
                req_body q = payload (job_data j)
                \<and> req_headers q = req_headers (build_request P c2 (payload (job_data j)) (attempt (job_data j)))"
      using "1.IH" [OF ws [symmetric] refl Some e c2'] unfolding rs'_def st2_def j' .
    have "req_headers (build_request P c2 (payload (job_data j)) (attempt (job_data j))) = req_headers ?q"
      using build_request_signing [OF s2] by simp
    then show ?thesis
      unfolding run using IH req q by (auto simp: all_posted_def)
  qed
qed

lemma default_header_values:
  "header_of (build_request P c p a) ''X-Timestamp''
     = Some (case custom_header_value c ''X-Timestamp'' of Some v \<Rightarrow> v | None \<Rightarrow> timestamp p)"
  "header_of (build_request P c p a) ''X-Signature-256''
     = Some (case custom_header_value c ''X-Signature-256'' of
               Some v \<Rightarrow> v
             | None \<Rightarrow> ''sha256='' @ hmac_sha256_hex P (secret c) (json_stringify P p))"
  by (simp_all add: request_header custom_header_value_def default_headers_def generateSignature_def
        split: option.splits)

section \<open>The route on the example body\<close>




section \<open>Statistics per job\<close>

text \<open>
  Claim C1, as the specification states it: for every delivery job the tenant's statistics
  are updated exactly once, \<open>totalSent\<close> grows by exactly 1 however many attempts the
  job took, and a retry failure that is not the last does not count in \<open>failureCount\<close>.
  The worker's processor calls \<open>updateWebhookStats\<close> in every attempt, so this fails:
  in scenario A (500, 500, 200) the counters go from 0, 0, 0 to \<open>totalSent = 3\<close>,
  \<open>successCount = 1\<close>, \<open>failureCount = 2\<close>.
\<close>

theorem stats_exactly_once_counterexample:
  "map stats [scenario_config]
     = [\<lparr>totalSent = 0, successCount = 0, failureCount = 0, averageResponseTime = 0\<rparr>]
   \<and> map stats (snd (run_job example_platform scenario_A [scenario_config]
                       (new_job scenario_config scenario_payload)))
     = [\<lparr>totalSent = 3, successCount = 1, failureCount = 2, averageResponseTime = 12\<rparr>]"
  using scenario_A_run by (simp add: scenario_config_def)

text \<open>
  Claim C1, amended: the statistics are updated once per attempt the worker makes. When the
  job's configuration is stored, a job that took \<open>n\<close> attempts raises \<open>totalSent\<close> by
  \<open>n\<close>, \<open>failureCount\<close> by the number of failed attempts (\<open>n\<close> when the last attempt failed,
  \<open>n - 1\<close> when it succeeded) and \<open>successCount\<close> by 1 exactly when the last attempt
  succeeded.
\<close>

theorem stats_updated_per_attempt:
  assumes "findById st (webhookConfigId (job_data j)) = Some c"
  shows "\<exists>c'. findById (snd (run_job P envs st j)) (webhookConfigId (job_data j)) = Some c'
           \<and> totalSent (stats c') = totalSent (stats c) + length (fst (run_job P envs st j))
           \<and> failureCount (stats c') = failureCount (stats c)
                + (if failed_attempt (last (fst (run_job P envs st j)))
                   then length (fst (run_job P envs st j)) else length (fst (run_job P envs st j)) - 1)
           \<and> successCount (stats c') = successCount (stats c)
                + (if failed_attempt (last (fst (run_job P envs st j))) then 0 else 1)"
  using run_job_present [OF assms, of P envs]
  unfolding run_job_failed_count run_job_success_count by blast

theorem stats_updated_per_attempt_witness:
  "findById [scenario_config] (webhookConfigId (job_data (new_job scenario_config scenario_payload)))
     = Some scenario_config
   \<and> totalSent (stats scenario_config) = 0
   \<and> (\<exists>c'. findById (snd (run_job example_platform scenario_A [scenario_config]
                              (new_job scenario_config scenario_payload))) 7 = Some c'
          \<and> totalSent (stats c') = 3 \<and> failureCount (stats c') = 2 \<and> successCount (stats c') = 1)"
proof -
  have h: "findById [scenario_config] (webhookConfigId (job_data (new_job scenario_config scenario_payload)))
             = Some scenario_config"
    by (simp add: findById_def new_job_def)
  have i: "webhookConfigId (job_data (new_job scenario_config scenario_payload)) = 7"
    by (simp add: new_job_def scenario_config_def)
  have z: "totalSent (stats scenario_config) = 0" "failureCount (stats scenario_config) = 0"
    "successCount (stats scenario_config) = 0"
    by (simp_all add: scenario_config_def)
  show ?thesis
    using h stats_updated_per_attempt [OF h, of example_platform scenario_A]
    unfolding i z scenario_A_length by (auto simp: scenario_A_last numeral_2_eq_2)
qed

section \<open>What the caller of sendWebhook sees\<close>

text \<open>
  Claim C2, as the specification states it: \<open>sendWebhook\<close> never throws a delivery failure
  back to its caller, with or without the queue. Without the queue the failed attempt's
  error is wrapped and thrown again: with the scenario's configuration and an endpoint
  that answers 500, the call ends in an error.
\<close>

theorem sendWebhook_never_throws_counterexample:
  "returned (sendWebhook example_platform \<lparr>redisEnabled = False, webhookQueue = []\<rparr> [scenario_config]
               ''org1'' ''cardExtracted'' ''{}'' ''2024-01-01T00:00:00.000Z'' (scenario_B 0))
     = Inl (Error ''Webhook delivery failed: Webhook delivery failed (attempt 1): HTTP 500: Internal Server Error'')"
  by (simp add: sendWebhook_def findOne_active_def scenario_config_def event_enabled_def
      deliverWebhook_def scenario_B_def validateStatus_def errorMessage_def toString_1 toString_500)

text \<open>
  Claim C2, amended: \<open>sendWebhook\<close> throws exactly when it sends directly (no queue), an
  active configuration with the event enabled exists, and the POST does not resolve. With
  the queue it never throws because of a delivery: it posts nothing itself. (Failures of
  the database or of Redis are outside this model.)
\<close>

theorem sendWebhook_throws_iff:
  "isl (returned (sendWebhook P svc st org eventType d now env))
     = (\<not> redisEnabled svc
        \<and> (\<exists>c. findOne_active st org = Some c \<and> event_enabled (events c) eventType)
        \<and> \<not> resolves (http env))"
  by (auto simp: sendWebhook_def deliverWebhook_def resolves_def Let_def
           split: option.splits axios_outcome.splits)

section \<open>Retry delays\<close>

text \<open>
  Claim C3: the delay before attempt \<open>k + 1\<close> is
  \<open>initialDelayMs * backoffMultiplier ^ (k - 1)\<close>. The job options built by
  \<open>sendWebhook\<close> carry \<open>retryDelay\<close> and the back-off type \<open>exponential\<close> only, so the
  configured multiplier never reaches the queue. With \<open>retryDelay = 100\<close> and
  \<open>backoffMultiplier = 3\<close> the retries of an always failing job are scheduled after 100
  and 200 ms, where the specification's formula gives 300 ms for the second.
\<close>

theorem backoff_multiplier_ignored:
  "map retry_in
     (fst (run_job example_platform scenario_B
            [scenario_config\<lparr>retryConfig := \<lparr>maxRetries = 2, retryDelay = 100, backoffMultiplier = 3\<rparr>\<rparr>]
            (new_job (scenario_config\<lparr>retryConfig := \<lparr>maxRetries = 2, retryDelay = 100, backoffMultiplier = 3\<rparr>\<rparr>)
               scenario_payload)))
     = [Some 100, Some 200, None]
   \<and> spec_delay \<lparr>maxRetries = 2, retryDelay = 100, backoffMultiplier = 3\<rparr> 2 = 300"
  apply (subst run_job.simps, simp add: scenario_defs scenario_B_def)+
  apply (simp add: spec_delay_def)
  done

section \<open>The X-Attempt header\<close>

text \<open>
  Claim C7: every POST carries \<open>X-Attempt\<close> equal to the number of the attempt. The worker
  reads \<open>attempt\<close> from the job's data, which \<open>sendWebhook\<close> sets to 1 and nothing
  updates. In scenario A all three attempts send \<open>X-Attempt: 1\<close>.
\<close>

theorem x_attempt_header_stays_one:
  "map (\<lambda>r. failed_attempt r)
       (fst (run_job example_platform scenario_A [scenario_config] (new_job scenario_config scenario_payload)))
     = [True, True, False]
   \<and> map (\<lambda>q. header_of q ''X-Attempt'')
       (all_posted (fst (run_job example_platform scenario_A [scenario_config] (new_job scenario_config scenario_payload))))
     = [Some ''1'', Some ''1'', Some ''1'']
   \<and> toString 2 = ''2'' \<and> toString 3 = ''3''"
proof -
  let ?rs = "fst (run_job example_platform scenario_A [scenario_config] (new_job scenario_config scenario_payload))"
  have "map fst (map (\<lambda>r. (failed_attempt r, retry_in r)) ?rs) = [True, True, False]"
    using scenario_A_run by simp
  then have "map (\<lambda>r. failed_attempt r) ?rs = [True, True, False]"
    by (simp add: comp_def)
  then show ?thesis
    using scenario_A_run by (simp add: toString.simps digit_char_def)
qed

section \<open>The bound on attempts\<close>




section \<open>Events nobody subscribed to\<close>

text \<open>
  Claim C5: when the tenant has no configuration, or only an inactive one, or the event
  type is not enabled, \<open>sendWebhook\<close> returns \<^verbatim>\<open>null\<close> (a no-op success, not an error),
  posts no request and adds nothing to the queue. The witness covers the three cases; the
  last is the specification's scenario C.
\<close>

theorem sendWebhook_skips:
  assumes "(\<forall>c\<in>set st. organization c = org \<longrightarrow> \<not> isActive c)
           \<or> (\<exists>c. findOne_active st org = Some c \<and> \<not> event_enabled (events c) eventType)"
  shows "sendWebhook P svc st org eventType d now env
           = \<lparr>returned = Inr Null, service_after = svc, requests = []\<rparr>"
proof -
  from assms consider
      (none) "\<forall>c\<in>set st. organization c = org \<longrightarrow> \<not> isActive c"
    | (off) c where "findOne_active st org = Some c" "\<not> event_enabled (events c) eventType"
    by blast
  then show ?thesis
  proof cases
    case none
    then have "findOne_active st org = None"
      by (auto simp: findOne_active_def find_None_iff)
    then show ?thesis by (simp add: sendWebhook_def)
  next
    case off
    then show ?thesis by (simp add: sendWebhook_def)
  qed
qed

theorem sendWebhook_skips_witness:
  "sendWebhook example_platform \<lparr>redisEnabled = True, webhookQueue = []\<rparr> []
       ''org1'' ''cardExtracted'' ''{}'' ''2024-01-01T00:00:00.000Z'' (scenario_A 0)
     = \<lparr>returned = Inr Null, service_after = \<lparr>redisEnabled = True, webhookQueue = []\<rparr>, requests = []\<rparr>
   \<and> sendWebhook example_platform \<lparr>redisEnabled = False, webhookQueue = []\<rparr> [scenario_config\<lparr>isActive := False\<rparr>]
       ''org1'' ''cardExtracted'' ''{}'' ''2024-01-01T00:00:00.000Z'' (scenario_A 0)
     = \<lparr>returned = Inr Null, service_after = \<lparr>redisEnabled = False, webhookQueue = []\<rparr>, requests = []\<rparr>
   \<and> findOne_active [scenario_config] ''org1'' = Some scenario_config
   \<and> \<not> event_enabled (events scenario_config) ''userAdded''
   \<and> sendWebhook example_platform \<lparr>redisEnabled = False, webhookQueue = []\<rparr> [scenario_config]
       ''org1'' ''userAdded'' ''{}'' ''2024-01-01T00:00:00.000Z'' (scenario_A 0)
     = \<lparr>returned = Inr Null, service_after = \<lparr>redisEnabled = False, webhookQueue = []\<rparr>, requests = []\<rparr>"
proof -
  have a: "(\<forall>c\<in>set ([]::store). organization c = ''org1'' \<longrightarrow> \<not> isActive c)
           \<or> (\<exists>c. findOne_active [] ''org1'' = Some c \<and> \<not> event_enabled (events c) ''cardExtracted'')"
    by simp
  have b: "(\<forall>c\<in>set [scenario_config\<lparr>isActive := False\<rparr>]. organization c = ''org1'' \<longrightarrow> \<not> isActive c)
           \<or> (\<exists>c. findOne_active [scenario_config\<lparr>isActive := False\<rparr>] ''org1'' = Some c
                   \<and> \<not> event_enabled (events c) ''cardExtracted'')"
    by simp
  have f: "findOne_active [scenario_config] ''org1'' = Some scenario_config"
    by (simp add: findOne_active_def scenario_config_def)
  have e: "\<not> event_enabled (events scenario_config) ''userAdded''"
    by (simp add: event_enabled_def scenario_config_def)
  have c: "(\<forall>c\<in>set [scenario_config]. organization c = ''org1'' \<longrightarrow> \<not> isActive c)
           \<or> (\<exists>c. findOne_active [scenario_config] ''org1'' = Some c \<and> \<not> event_enabled (events c) ''userAdded'')"
    using f e by simp
  show ?thesis
    using sendWebhook_skips [OF a] sendWebhook_skips [OF b] sendWebhook_skips [OF c] f e
    by simp
qed

section \<open>What the retries send\<close>

text \<open>
  Claim C6, as the specification states it: all attempts of a job send the same body,
  the same timestamp and the same signature. The worker reads the configuration again
  and signs again in every attempt, so a secret the tenant saves between two attempts
  changes the signature: in scenario A, with a digest that depends on the key and a new
  secret saved during the first delay, the three requests carry the same body and two
  different signatures.
\<close>

theorem retries_same_signature_counterexample:
  "map req_body
     (all_posted (fst (run_job_with_edits keyed_platform scenario_A new_secret_saved [scenario_config]
                        (new_job scenario_config scenario_payload))))
     = [scenario_payload, scenario_payload, scenario_payload]
   \<and> map (\<lambda>q. header_of q ''X-Signature-256'')
       (all_posted (fst (run_job_with_edits keyed_platform scenario_A new_secret_saved [scenario_config]
                          (new_job scenario_config scenario_payload))))
     = [Some (''sha256=ssssssssssssssss'' @ replicate 48 CHR ''0''),
        Some (''sha256=tttttttttttttttt'' @ replicate 48 CHR ''0''),
        Some (''sha256=tttttttttttttttt'' @ replicate 48 CHR ''0'')]"
  apply (subst run_job_with_edits.simps, simp add: scenario_defs scenario_A_def new_secret_saved_def)+
  apply (simp add: all_posted_def header_of_def build_request_def default_headers_def
      add_custom_headers_def generateSignature_def keyed_platform_def)
  done

text \<open>
  Claim C6, amended: as long as nothing that is written to the store while the job
  retries changes the secret or the custom headers of its configuration (the hypothesis
  on \<open>edits\<close>), all attempts of the job that \<open>sendWebhook\<close> added for the stored
  configuration \<open>c\<close> send the envelope \<open>p\<close> built at dispatch as their body, hence the same
  bytes, and carry the same \<open>X-Timestamp\<close> and \<open>X-Signature-256\<close> headers: the
  envelope's timestamp, and \<open>sha256=\<close> followed by the digest of the serialised envelope
  under the secret, unless the tenant's own custom header of that name replaces them.
\<close>

theorem retries_resend_same_envelope:
  assumes "findById st (config_id c) = Some c"
    and "\<forall>k st'. map_option signing_settings (findById (edits k st') (config_id c))
                   = map_option signing_settings (findById st' (config_id c))"
  shows "\<forall>q\<in>set (all_posted (fst (run_job_with_edits P envs edits st (new_job c p)))).
         \<forall>q'\<in>set (all_posted (fst (run_job_with_edits P envs edits st (new_job c p)))).
           req_body q = p
           \<and> json_stringify P (req_body q') = json_stringify P (req_body q)
           \<and> header_of q ''X-Timestamp''
               = Some (case custom_header_value c ''X-Timestamp'' of Some v \<Rightarrow> v | None \<Rightarrow> timestamp p)
           \<and> header_of q' ''X-Timestamp'' = header_of q ''X-Timestamp''
           \<and> header_of q ''X-Signature-256''
               = Some (case custom_header_value c ''X-Signature-256'' of
                         Some v \<Rightarrow> v
                       | None \<Rightarrow> ''sha256='' @ hmac_sha256_hex P (secret c) (json_stringify P p))
           \<and> header_of q' ''X-Signature-256'' = header_of q ''X-Signature-256''"
proof -
  have i: "webhookConfigId (job_data (new_job c p)) = config_id c" "payload (job_data (new_job c p)) = p"
    by (simp_all add: new_job_def)
  have all: "\<forall>q\<in>set (all_posted (fst (run_job_with_edits P envs edits st (new_job c p)))).
           req_body q = p \<and> req_headers q = req_headers (build_request P c p (attempt (job_data (new_job c p))))"
    using run_job_with_edits_posted [of edits "new_job c p" st c P envs] assms unfolding i by blast
  have h: "header_of q n = header_of (build_request P c p (attempt (job_data (new_job c p)))) n"
    if "q \<in> set (all_posted (fst (run_job_with_edits P envs edits st (new_job c p))))" for q n
    using all that by (simp add: header_of_def)
  show ?thesis
    using all h default_header_values [of P c p "attempt (job_data (new_job c p))"] by simp
qed

theorem retries_resend_same_envelope_witness:
  "findById [scenario_config] (config_id scenario_config) = Some scenario_config
   \<and> length (all_posted (fst (run_job_with_edits example_platform scenario_A (\<lambda>k st. st) [scenario_config]
                                 (new_job scenario_config scenario_payload)))) = 3
   \<and> req_body (all_posted (fst (run_job_with_edits example_platform scenario_A (\<lambda>k st. st) [scenario_config]
                                 (new_job scenario_config scenario_payload))) ! 2) = scenario_payload
   \<and> header_of (all_posted (fst (run_job_with_edits example_platform scenario_A (\<lambda>k st. st) [scenario_config]
                                 (new_job scenario_config scenario_payload))) ! 2) ''X-Timestamp''
       = Some ''2024-01-01T00:00:00.000Z''
   \<and> header_of (all_posted (fst (run_job_with_edits example_platform scenario_A (\<lambda>k st. st) [scenario_config]
                                 (new_job scenario_config scenario_payload))) ! 2) ''X-Signature-256''
       = Some (''sha256='' @ replicate 64 CHR ''0'')
   \<and> header_of (all_posted (fst (run_job_with_edits example_platform scenario_A (\<lambda>k st. st) [scenario_config]
                                 (new_job scenario_config scenario_payload))) ! 0) ''X-Signature-256''
       = header_of (all_posted (fst (run_job_with_edits example_platform scenario_A (\<lambda>k st. st) [scenario_config]
                                 (new_job scenario_config scenario_payload))) ! 2) ''X-Signature-256''"
proof -
  let ?qs = "all_posted (fst (run_job_with_edits example_platform scenario_A (\<lambda>k st. st) [scenario_config]
                                 (new_job scenario_config scenario_payload)))"
  have f: "findById [scenario_config] (config_id scenario_config) = Some scenario_config"
    by (simp add: findById_def)
  have e: "\<forall>k st'. map_option signing_settings (findById ((\<lambda>k st. st) k st') (config_id scenario_config))
                   = map_option signing_settings (findById st' (config_id scenario_config))"
    by simp
  have l: "length ?qs = 3"
    by (simp add: run_job_with_no_edits scenario_A_posted)
  then have m: "?qs ! 0 \<in> set ?qs" "?qs ! 2 \<in> set ?qs"
    by (simp_all add: nth_mem)
  have v: "custom_header_value scenario_config ''X-Timestamp'' = None"
    "custom_header_value scenario_config ''X-Signature-256'' = None"
    "timestamp scenario_payload = ''2024-01-01T00:00:00.000Z''"
    "hmac_sha256_hex example_platform (secret scenario_config) (json_stringify example_platform scenario_payload)
       = replicate 64 CHR ''0''"
    by (simp_all add: custom_header_value_def scenario_config_def scenario_payload_def example_platform_def)
  have T: "\<forall>q\<in>set ?qs. \<forall>q'\<in>set ?qs.
             req_body q = scenario_payload
             \<and> header_of q ''X-Timestamp'' = Some ''2024-01-01T00:00:00.000Z''
             \<and> header_of q ''X-Signature-256'' = Some (''sha256='' @ replicate 64 CHR ''0'')
             \<and> header_of q' ''X-Signature-256'' = header_of q ''X-Signature-256''"
    using retries_resend_same_envelope [OF f e, of example_platform scenario_A scenario_payload]
    by (simp add: v)
  have "req_body (?qs ! 2) = scenario_payload
        \<and> header_of (?qs ! 2) ''X-Timestamp'' = Some ''2024-01-01T00:00:00.000Z''
        \<and> header_of (?qs ! 2) ''X-Signature-256'' = Some (''sha256='' @ replicate 64 CHR ''0'')
        \<and> header_of (?qs ! 0) ''X-Signature-256'' = header_of (?qs ! 2) ''X-Signature-256''"
    using T m by blast
  then show ?thesis
    using f l by blast
qed

section \<open>Saving zero retries\<close>




section \<open>Verifying a signature of the wrong length\<close>

text \<open>
  Claim C10: \<open>verifySignature\<close> returns a boolean only for a candidate as long as the
  expected signature, and throws for a candidate of any other length. The expected
  signature is \<open>sha256=\<close> followed by the digest; for a digest of 64 hexadecimal
  characters, as HMAC-SHA256 gives, that is 71 bytes.
\<close>

theorem verifySignature_length:
  assumes "length (hmac_sha256_hex P s (json_stringify P p)) = 64"
  shows "length (generateSignature P p s) = 71
         \<and> verifySignature P p signature s =
             (if length signature = 71 then Inr (signature = generateSignature P p s)
              else Inl (RangeError ''Input buffers must have the same byte length''))"
  using assms by (simp add: verifySignature_def timingSafeEqual_def generateSignature_def)

theorem verifySignature_length_witness:
  "length (hmac_sha256_hex example_platform ''ssssssssssssssss'' (json_stringify example_platform scenario_payload)) = 64
   \<and> verifySignature example_platform scenario_payload ''sha256=abc'' ''ssssssssssssssss''
       = Inl (RangeError ''Input buffers must have the same byte length'')
   \<and> verifySignature example_platform scenario_payload
         (''sha256='' @ replicate 64 CHR ''0'') ''ssssssssssssssss'' = Inr True
   \<and> verifySignature example_platform scenario_payload
         (''sha256='' @ replicate 64 CHR ''f'') ''ssssssssssssssss'' = Inr False"
proof -
  have h: "length (hmac_sha256_hex example_platform ''ssssssssssssssss'' (json_stringify example_platform scenario_payload)) = 64"
    by (simp add: example_platform_def)
  have g: "generateSignature example_platform scenario_payload ''ssssssssssssssss'' = ''sha256='' @ replicate 64 CHR ''0''"
    by (simp add: generateSignature_def example_platform_def)
  show ?thesis
    using h g
      verifySignature_length [OF h, of "''sha256=abc''"]
      verifySignature_length [OF h, of "''sha256='' @ replicate 64 CHR ''0''"]
      verifySignature_length [OF h, of "''sha256='' @ replicate 64 CHR ''f''"]
    by simp
qed

section \<open>Verifying returns a boolean\<close>

text \<open>
  Claim C8: the signature is computed over the serialisation of the payload that is sent
  (see \<open>default_header_values\<close>), and \<open>verifySignature\<close> returns a boolean. It does not
  for every candidate: the empty candidate makes it throw whatever the payload and the
  secret are, and so does the candidate \<open>sha256=abc\<close> in the example.
\<close>

theorem verifySignature_throws:
  "verifySignature P p [] s = Inl (RangeError ''Input buffers must have the same byte length'')
   \<and> verifySignature example_platform scenario_payload ''sha256=abc'' ''ssssssssssssssss''
       = Inl (RangeError ''Input buffers must have the same byte length'')"
  by (simp add: verifySignature_def timingSafeEqual_def generateSignature_def example_platform_def)

end
